theory Spec2Isabelle
  imports Complex_Main "HOL-Library.Char_ord" "HOL-Library.List_Lexorder" "HOL-Library.AList"
begin

section \<open>LabelMe annotations to segmentation masks (q.py)\<close>

text \<open>
  A shallow embedding of \<^verbatim>\<open>q.py\<close>: \<^verbatim>\<open>generate_class_colors\<close>, \<^verbatim>\<open>auto_detect_classes\<close>,
  \<^verbatim>\<open>json_to_mask\<close> and \<^verbatim>\<open>process_labelme_folder\<close>.  Python exceptions are values of
  \<open>py_error\<close>; the file system and the console are an explicit state; the calls into
  the \<^verbatim>\<open>random\<close> module and into Pillow's polygon drawing are parameters of the
  functions that make them.
\<close>

subsection \<open>Strings and POSIX paths\<close>

text \<open>
  A Python \<^verbatim>\<open>str\<close> is a \<open>string\<close> of UTF-8 bytes.  The separators \<^verbatim>\<open>/\<close> and \<^verbatim>\<open>.\<close> are
  ASCII, and byte-wise lexicographic order on UTF-8 is the code-point order Python
  compares strings by.  The \<^verbatim>\<open>os.path\<close> functions are those of \<^verbatim>\<open>posixpath\<close>.
\<close>

definition endswith :: "string \<Rightarrow> string \<Rightarrow> bool" where
  "endswith s t = (length t \<le> length s \<and> drop (length s - length t) s = t)"

definition isabs :: "string \<Rightarrow> bool" where
  "isabs s = (case s of [] \<Rightarrow> False | c # _ \<Rightarrow> c = CHR ''/'')"

definition basename :: "string \<Rightarrow> string" where
  "basename p = rev (takeWhile (\<lambda>c. c \<noteq> CHR ''/'') (rev p))"

definition join :: "string \<Rightarrow> string \<Rightarrow> string" where
  "join a b =
     (if isabs b then b
      else if a = [] \<or> endswith a ''/'' then a @ b
      else a @ ''/'' @ b)"

text \<open>
  \<^verbatim>\<open>os.path.splitext\<close>: the extension starts at the last dot of the last component,
  unless only dots precede that dot in the component.
\<close>

definition splitext :: "string \<Rightarrow> string \<times> string" where
  "splitext p =
     (let name = basename p;
          ext = rev (takeWhile (\<lambda>c. c \<noteq> CHR ''.'') (rev name));
          stem = take (length name - length ext - 1) name
      in if CHR ''.'' \<in> set name \<and> (\<exists>c \<in> set stem. c \<noteq> CHR ''.'')
         then (take (length p - length ext - 1) p, CHR ''.'' # ext)
         else (p, []))"

subsection \<open>Exceptions\<close>

datatype py_error =
    KeyError
  | IndexError
  | ValueError
  | JSONDecodeError
  | FileNotFoundError
  | IsADirectoryError
  | FileExistsError
  | SameFileError

subsection \<open>The palette: \<^verbatim>\<open>generate_class_colors\<close>\<close>

type_synonym color = "int \<times> int \<times> int"

text \<open>
  \<^verbatim>\<open>random.randint(a, b)\<close> reads and advances the generator of the \<^verbatim>\<open>random\<close> module.
  It is the parameter \<open>randint\<close>, over a generator state of any type \<open>'g\<close>.  Its
  contract, an integer \<open>N\<close> with \<open>a \<le> N \<le> b\<close>, is \<open>randint_ok\<close>.
\<close>

type_synonym 'g rand = "int \<Rightarrow> int \<Rightarrow> 'g \<Rightarrow> int \<times> 'g"

definition randint_ok :: "'g rand \<Rightarrow> bool" where
  "randint_ok randint =
     (\<forall>a b g. a \<le> b \<longrightarrow> a \<le> fst (randint a b g) \<and> fst (randint a b g) \<le> b)"

text \<open>The body of \<^verbatim>\<open>for i in range(1, num_classes)\<close>, run \<open>k\<close> more times.\<close>

fun colors_loop :: "'g rand \<Rightarrow> nat \<Rightarrow> color list \<Rightarrow> 'g \<Rightarrow> color list \<times> 'g" where
  "colors_loop randint 0 colors gen = (colors, gen)"
| "colors_loop randint (Suc k) colors gen =
     (let (r, gen1) = randint 50 255 gen;
          (g, gen2) = randint 50 255 gen1;
          (b, gen3) = randint 50 255 gen2
      in colors_loop randint k (colors @ [(r, g, b)]) gen3)"

text \<open>\<^verbatim>\<open>range(1, num_classes)\<close> has \<open>num_classes - 1\<close> elements, none when that is negative.\<close>

definition generate_class_colors :: "'g rand \<Rightarrow> int \<Rightarrow> 'g \<Rightarrow> color list \<times> 'g" where
  "generate_class_colors randint num_classes gen =
     colors_loop randint (nat (num_classes - 1)) [(0, 0, 0)] gen"

text \<open>A linear congruential generator, to run the palette on.\<close>

definition lcg :: "int rand" where
  "lcg a b s = (a + s mod (b - a + 1), (s * 1103515245 + 12345) mod 2147483648)"

definition channel_ok :: "color \<Rightarrow> bool" where
  "channel_ok c = (case c of (r, g, b) \<Rightarrow>
     50 \<le> r \<and> r \<le> 255 \<and> 50 \<le> g \<and> g \<le> 255 \<and> 50 \<le> b \<and> b \<le> 255)"

subsection \<open>Resolving the source image\<close>

text \<open>Lines 102 to 108 of \<^verbatim>\<open>process_labelme_folder\<close>.\<close>

definition image_path_of :: "string \<Rightarrow> string \<Rightarrow> string" where
  "image_path_of input_dir image_filename =
     (if \<not> isabs image_filename then join input_dir (basename image_filename)
      else image_filename)"

text \<open>
  Following the specification's words: a relative path is resolved against the input
  directory, an absolute one is taken as it is.
\<close>

definition spec_resolve :: "string \<Rightarrow> string \<Rightarrow> string" where
  "spec_resolve input_dir image_filename =
     (if isabs image_filename then image_filename else join input_dir image_filename)"


subsection \<open>Annotation documents\<close>

text \<open>
  What \<^verbatim>\<open>json.load\<close> returns for an annotation file: the fields of a LabelMe
  document with the types of the data model, each one present (\<open>Some\<close>) or missing
  (\<open>None\<close>, so that subscripting raises \<^verbatim>\<open>KeyError\<close>).  A coordinate is the rational
  number the JSON numeral denotes.
\<close>

record shape =
  label :: "string option"
  points :: "(rat \<times> rat) list option"

record document =
  imageWidth :: "int option"
  imageHeight :: "int option"
  imagePath :: "string option"
  shapes :: "shape list option"

subsection \<open>Images\<close>

text \<open>
  A Pillow image of size \<open>(width, height)\<close>: \<open>height\<close> rows of \<open>width\<close> pixels.  An
  \<^verbatim>\<open>'L'\<close> image holds one 8-bit value per pixel, an \<^verbatim>\<open>'RGB'\<close> image three.
\<close>

datatype 'p image = Image (width: nat) (height: nat) (rows: "'p list list")

type_synonym rgb = "nat \<times> nat \<times> nat"

text \<open>The image filled with one value.\<close>

definition filled :: "nat \<Rightarrow> nat \<Rightarrow> 'p \<Rightarrow> 'p image" where
  "filled w h p = Image w h (replicate h (replicate w p))"

text \<open>\<^verbatim>\<open>Image.new(mode, size, color)\<close>; Pillow refuses a negative width or height.\<close>

definition image_new :: "int \<Rightarrow> int \<Rightarrow> 'p \<Rightarrow> py_error + 'p image" where
  "image_new w h p =
     (if w < 0 \<or> h < 0 then Inl ValueError
      else Inr (filled (nat w) (nat h) p))"

definition pixel :: "'p image \<Rightarrow> nat \<Rightarrow> nat \<Rightarrow> 'p" where
  "pixel im x y = rows im ! y ! x"

text \<open>An integer fill is stored in an 8-bit band clipped to \<open>0..255\<close>.\<close>

definition clip8 :: "int \<Rightarrow> nat" where
  "clip8 v = (if v < 0 then 0 else if 255 < v then 255 else nat v)"

text \<open>
  \<^verbatim>\<open>ImageDraw.polygon(xy, fill)\<close> is Pillow's rasteriser.  It is the parameter
  \<open>polygon\<close> of the functions below: for a vertex list it either raises, or paints the
  pixels \<open>(x, y)\<close> of a coverage predicate, the same for every canvas.
\<close>

type_synonym polygon_draw = "(rat \<times> rat) list \<Rightarrow> py_error + (nat \<Rightarrow> nat \<Rightarrow> bool)"

definition fill_polygon :: "(nat \<Rightarrow> nat \<Rightarrow> bool) \<Rightarrow> 'p \<Rightarrow> 'p image \<Rightarrow> 'p image" where
  "fill_polygon cov ink im =
     Image (width im) (height im)
       (map (\<lambda>(y, row). map (\<lambda>(x, p). if cov x y then ink else p) (enumerate 0 row))
          (enumerate 0 (rows im)))"



text \<open>
  A function with that behaviour, to instantiate the parameter in the examples: it
  paints the bounding box of the vertices, both borders included.  It is Pillow's fill
  on axis-parallel rectangles with integer corners only; on other polygons it is not,
  and no statement below applies it to one.
\<close>

definition bbox_polygon :: polygon_draw where
  "bbox_polygon pts =
     (if length pts < 2 then Inl ValueError
      else Inr (\<lambda>x y.
        (\<exists>p \<in> set pts. fst p \<le> of_nat x) \<and> (\<exists>p \<in> set pts. of_nat x \<le> fst p) \<and>
        (\<exists>p \<in> set pts. snd p \<le> of_nat y) \<and> (\<exists>p \<in> set pts. of_nat y \<le> snd p)))"

subsection \<open>Dictionaries and lists\<close>

text \<open>
  A \<^verbatim>\<open>dict\<close> from labels to class ids is an association list in insertion order;
  \<^verbatim>\<open>d[k] = v\<close> is \<open>AList.update\<close> (a present key keeps its place), \<^verbatim>\<open>k in d\<close> and
  \<^verbatim>\<open>d[k]\<close> are \<open>map_of\<close>, \<^verbatim>\<open>d.items()\<close> is the list itself.
\<close>

type_synonym class_mapping = "(string \<times> int) list"

text \<open>\<^verbatim>\<open>xs[i]\<close>: a negative index counts from the end.\<close>

definition py_index :: "'a list \<Rightarrow> int \<Rightarrow> py_error + 'a" where
  "py_index xs i =
     (if 0 \<le> i \<and> i < int (length xs) then Inr (xs ! nat i)
      else if i < 0 \<and> - int (length xs) \<le> i then Inr (xs ! nat (int (length xs) + i))
      else Inl IndexError)"

fun py_enumerate :: "int \<Rightarrow> 'a list \<Rightarrow> (int \<times> 'a) list" where
  "py_enumerate i [] = []"
| "py_enumerate i (x # xs) = (i, x) # py_enumerate (i + 1) xs"

subsection \<open>The file system and the console\<close>

datatype line = Header | ClassLine int string color

text \<open>
  A file holds an annotation document, a saved mask, the colour report, or anything
  else (\<open>Opaque\<close>: bytes that \<^verbatim>\<open>json.load\<close> rejects).  Paths are keys as the program
  spells them.
\<close>

datatype fdata =
    JsonDoc document
  | IndexMask "nat image"
  | ColorMask "rgb image"
  | Report "line list"
  | Opaque string

datatype node = Dir | File fdata

type_synonym fs = "string \<rightharpoonup> node"

text \<open>The lines the program prints.\<close>

datatype event =
    LabelNotFound string
  | MasksCreated string string
  | ImageCopied string
  | ImageNotFound string
  | ProcessingError string py_error
  | Finished nat nat
  | ReadError string py_error

record world =
  files :: fs
  out :: "event list"

record batch = world +
  processed_count :: nat
  error_count :: nat

text \<open>\<^verbatim>\<open>with open(path) as f: data = json.load(f)\<close>\<close>

definition read_json :: "fs \<Rightarrow> string \<Rightarrow> py_error + document" where
  "read_json fs path =
     (case fs path of
        None \<Rightarrow> Inl FileNotFoundError
      | Some Dir \<Rightarrow> Inl IsADirectoryError
      | Some (File (JsonDoc data)) \<Rightarrow> Inr data
      | Some (File _) \<Rightarrow> Inl JSONDecodeError)"

definition write_file :: "fs \<Rightarrow> string \<Rightarrow> fdata \<Rightarrow> py_error + fs" where
  "write_file fs path d =
     (if fs path = Some Dir then Inl IsADirectoryError else Inr (fs(path \<mapsto> File d)))"

text \<open>
  \<^verbatim>\<open>Image.save(path)\<close>.  Pillow takes the format from the extension of the path, which
  is \<^verbatim>\<open>os.path.splitext(path)[1]\<close>, and raises \<^verbatim>\<open>ValueError\<close> when that is not the
  extension of a format; the paths of this program end in \<^verbatim>\<open>.png\<close>, so their extension
  is \<^verbatim>\<open>.png\<close> or empty.  It then opens the file for writing, and refuses to encode an
  image without pixels: the file it had to create is removed again, a file that was
  there before is left empty.
\<close>

definition image_save :: "('p image \<Rightarrow> fdata) \<Rightarrow> 'p image \<Rightarrow> string \<Rightarrow> fs \<Rightarrow> fs \<times> py_error option" where
  "image_save enc im path fs =
     (if snd (splitext path) \<noteq> ''.png'' then (fs, Some ValueError)
      else if fs path = Some Dir then (fs, Some IsADirectoryError)
      else if width im = 0 \<or> height im = 0 then
        ((case fs path of None \<Rightarrow> fs | Some n \<Rightarrow> fs(path \<mapsto> File (Opaque []))),
         Some ValueError)
      else (fs(path \<mapsto> File (enc im)), None))"


text \<open>\<^verbatim>\<open>shutil.copy2(src, dst)\<close>: a directory as destination receives the file under its own name.\<close>

definition copy2 :: "fs \<Rightarrow> string \<Rightarrow> string \<Rightarrow> py_error + fs" where
  "copy2 fs src dst =
     (let dst1 = (if fs dst = Some Dir then join dst (basename src) else dst)
      in case fs src of
           None \<Rightarrow> Inl FileNotFoundError
         | Some n \<Rightarrow>
             if src = dst1 then Inl SameFileError
             else (case n of
                     Dir \<Rightarrow> Inl IsADirectoryError
                   | File d \<Rightarrow> write_file fs dst1 d))"

subsection \<open>The rasteriser: \<^verbatim>\<open>json_to_mask\<close>\<close>

text \<open>The loop over \<^verbatim>\<open>data['shapes']\<close>, lines 25 to 44.\<close>

fun draw_shapes ::
  "polygon_draw \<Rightarrow> class_mapping \<Rightarrow> color list \<Rightarrow> shape list \<Rightarrow>
   nat image \<Rightarrow> rgb image \<Rightarrow> event list \<Rightarrow>
   (nat image \<times> rgb image \<times> event list) \<times> py_error option" where
  "draw_shapes polygon class_mapping class_colors [] mask_im color_mask printed =
     ((mask_im, color_mask, printed), None)"
| "draw_shapes polygon class_mapping class_colors (s # ss) mask_im color_mask printed =
     (case label s of
        None \<Rightarrow> ((mask_im, color_mask, printed), Some KeyError)
      | Some l \<Rightarrow>
     (case points s of
        None \<Rightarrow> ((mask_im, color_mask, printed), Some KeyError)
      | Some pts \<Rightarrow>
     (case map_of class_mapping l of
        None \<Rightarrow>
          draw_shapes polygon class_mapping class_colors ss mask_im color_mask
            (printed @ [LabelNotFound l])
      | Some class_id \<Rightarrow>
     (case py_index class_colors class_id of
        Inl e \<Rightarrow> ((mask_im, color_mask, printed), Some e)
      | Inr (r, g, b) \<Rightarrow>
     (case polygon pts of
        Inl e \<Rightarrow> ((mask_im, color_mask, printed), Some e)
      | Inr cov \<Rightarrow>
          draw_shapes polygon class_mapping class_colors ss
            (fill_polygon cov (clip8 class_id) mask_im)
            (fill_polygon cov (clip8 r, clip8 g, clip8 b) color_mask) printed)))))"

text \<open>Line 47: \<^verbatim>\<open>image_name\<close>, and the two paths made of it.\<close>

definition image_name_of :: "string \<Rightarrow> string" where
  "image_name_of image_path = fst (splitext (basename image_path))"

definition mask_path_of :: "string \<Rightarrow> string \<Rightarrow> string" where
  "mask_path_of output_mask_dir image_path =
     join output_mask_dir (image_name_of image_path @ ''.png'')"

definition color_mask_path_of :: "string \<Rightarrow> string \<Rightarrow> string" where
  "color_mask_path_of output_color_mask_dir image_path =
     join output_color_mask_dir (image_name_of image_path @ ''_color.png'')"

definition json_to_mask ::
  "polygon_draw \<Rightarrow> string \<Rightarrow> string \<Rightarrow> string \<Rightarrow> class_mapping \<Rightarrow> color list \<Rightarrow>
   'a world_scheme \<Rightarrow> 'a world_scheme \<times> py_error option" where
  "json_to_mask polygon json_path output_mask_dir output_color_mask_dir
       class_mapping class_colors w =
     (case read_json (files w) json_path of
        Inl e \<Rightarrow> (w, Some e)
      | Inr data \<Rightarrow>
     (case imageWidth data of
        None \<Rightarrow> (w, Some KeyError)
      | Some iw \<Rightarrow>
     (case imageHeight data of
        None \<Rightarrow> (w, Some KeyError)
      | Some ih \<Rightarrow>
     (case image_new iw ih 0 of
        Inl e \<Rightarrow> (w, Some e)
      | Inr mask_im \<Rightarrow>
     (case image_new iw ih (0, 0, 0) of
        Inl e \<Rightarrow> (w, Some e)
      | Inr color_mask \<Rightarrow>
     (case shapes data of
        None \<Rightarrow> (w, Some KeyError)
      | Some shs \<Rightarrow>
     (case draw_shapes polygon class_mapping class_colors shs mask_im color_mask (out w) of
        ((mask1, color_mask1, out1), Some e) \<Rightarrow> (w\<lparr>out := out1\<rparr>, Some e)
      | ((mask1, color_mask1, out1), None) \<Rightarrow>
     (case imagePath data of
        None \<Rightarrow> (w\<lparr>out := out1\<rparr>, Some KeyError)
      | Some image_path \<Rightarrow>
     (let mask_path = mask_path_of output_mask_dir image_path;
          color_mask_path = color_mask_path_of output_color_mask_dir image_path
      in case image_save IndexMask mask1 mask_path (files w) of
           (fs1, Some e) \<Rightarrow> (w\<lparr>files := fs1, out := out1\<rparr>, Some e)
         | (fs1, None) \<Rightarrow>
             (case image_save ColorMask color_mask1 color_mask_path fs1 of
                (fs2, Some e) \<Rightarrow> (w\<lparr>files := fs2, out := out1\<rparr>, Some e)
              | (fs2, None) \<Rightarrow>
                  (w\<lparr>files := fs2, out := out1 @ [MasksCreated mask_path color_mask_path]\<rparr>,
                   None)))))))))))"

subsection \<open>The batch: \<^verbatim>\<open>process_labelme_folder\<close>\<close>

text \<open>Lines 98 to 115: the document is read again and its image copied.\<close>

definition copy_image ::
  "string \<Rightarrow> string \<Rightarrow> string \<Rightarrow> 'a world_scheme \<Rightarrow> 'a world_scheme \<times> py_error option" where
  "copy_image input_dir images_dir json_path w =
     (case read_json (files w) json_path of
        Inl e \<Rightarrow> (w, Some e)
      | Inr data \<Rightarrow>
     (case imagePath data of
        None \<Rightarrow> (w, Some KeyError)
      | Some image_filename \<Rightarrow>
     (let image_path = image_path_of input_dir image_filename
      in if files w image_path \<noteq> None then
           (let output_image_path = join images_dir (basename image_path)
            in case copy2 (files w) image_path output_image_path of
                 Inl e \<Rightarrow> (w, Some e)
               | Inr fs1 \<Rightarrow>
                   (w\<lparr>files := fs1, out := out w @ [ImageCopied output_image_path]\<rparr>, None))
         else (w\<lparr>out := out w @ [ImageNotFound image_path]\<rparr>, None))))"

text \<open>The body of the loop over \<^verbatim>\<open>os.listdir(input_dir)\<close>, lines 91 to 121.\<close>

definition process_file ::
  "polygon_draw \<Rightarrow> string \<Rightarrow> string \<Rightarrow> string \<Rightarrow> string \<Rightarrow> class_mapping \<Rightarrow> color list \<Rightarrow>
   string \<Rightarrow> batch \<Rightarrow> batch" where
  "process_file polygon input_dir images_dir masks_dir color_masks_dir
       class_mapping class_colors filename b =
     (if endswith filename ''.json'' then
        (let json_path = join input_dir filename
         in case json_to_mask polygon json_path masks_dir color_masks_dir
                   class_mapping class_colors b of
              (b1, Some e) \<Rightarrow>
                b1\<lparr>out := out b1 @ [ProcessingError json_path e],
                   error_count := error_count b1 + 1\<rparr>
            | (b1, None) \<Rightarrow>
                (case copy_image input_dir images_dir json_path b1 of
                   (b2, Some e) \<Rightarrow>
                     b2\<lparr>out := out b2 @ [ProcessingError json_path e],
                        error_count := error_count b2 + 1\<rparr>
                 | (b2, None) \<Rightarrow> b2\<lparr>processed_count := processed_count b2 + 1\<rparr>))
      else b)"

definition process_files ::
  "polygon_draw \<Rightarrow> string \<Rightarrow> string \<Rightarrow> string \<Rightarrow> string \<Rightarrow> class_mapping \<Rightarrow> color list \<Rightarrow>
   string list \<Rightarrow> batch \<Rightarrow> batch" where
  "process_files polygon input_dir images_dir masks_dir color_masks_dir
       class_mapping class_colors listing b =
     fold (process_file polygon input_dir images_dir masks_dir color_masks_dir
             class_mapping class_colors) listing b"



subsection \<open>The vocabulary: \<^verbatim>\<open>auto_detect_classes\<close>\<close>

text \<open>The loop over \<^verbatim>\<open>data['shapes']\<close>, lines 145 and 146.\<close>

fun add_labels :: "shape list \<Rightarrow> string set \<Rightarrow> string set \<times> py_error option" where
  "add_labels [] all_labels = (all_labels, None)"
| "add_labels (s # ss) all_labels =
     (case label s of
        None \<Rightarrow> (all_labels, Some KeyError)
      | Some l \<Rightarrow> add_labels ss (insert l all_labels))"

text \<open>The body of the loop over the directory, lines 139 to 148.\<close>

definition detect_file ::
  "fs \<Rightarrow> string \<Rightarrow> string \<Rightarrow> string set \<times> event list \<Rightarrow> string set \<times> event list" where
  "detect_file fs input_dir filename st =
     (case st of (all_labels, printed) \<Rightarrow>
        if endswith filename ''.json'' then
          (let json_path = join input_dir filename
           in case read_json fs json_path of
                Inl e \<Rightarrow> (all_labels, printed @ [ReadError json_path e])
              | Inr data \<Rightarrow>
                  (case shapes data of
                     None \<Rightarrow> (all_labels, printed @ [ReadError json_path KeyError])
                   | Some shs \<Rightarrow>
                       (case add_labels shs all_labels of
                          (labels1, None) \<Rightarrow> (labels1, printed)
                        | (labels1, Some e) \<Rightarrow> (labels1, printed @ [ReadError json_path e]))))
        else st)"

text \<open>Lines 151 to 153.\<close>

definition build_mapping :: "string set \<Rightarrow> class_mapping" where
  "build_mapping all_labels =
     fold (\<lambda>(i, label) class_mapping. AList.update label i class_mapping)
       (py_enumerate 1 (sorted_list_of_set all_labels)) [(''background'', 0)]"

text \<open>The mapping returned, and the lines printed.\<close>

definition auto_detect_classes :: "fs \<Rightarrow> string list \<Rightarrow> string \<Rightarrow> class_mapping \<times> event list" where
  "auto_detect_classes fs listing input_dir =
     (case fold (detect_file fs input_dir) listing ({}, []) of
        (all_labels, printed) \<Rightarrow> (build_mapping all_labels, printed))"

subsection \<open>Records that parse, shapes that draw\<close>

text \<open>
  The specification's structurally valid record: every required field is there.  A
  file parses when \<^verbatim>\<open>json.load\<close> accepts it and the document is such a record.
\<close>

definition valid_record :: "document \<Rightarrow> bool" where
  "valid_record data =
     (imageWidth data \<noteq> None \<and> imageHeight data \<noteq> None \<and> imagePath data \<noteq> None \<and>
      (case shapes data of
         None \<Rightarrow> False
       | Some shs \<Rightarrow> list_all (\<lambda>s. label s \<noteq> None \<and> points s \<noteq> None) shs))"

definition parses :: "fs \<Rightarrow> string \<Rightarrow> bool" where
  "parses fs path = (case read_json fs path of Inl e \<Rightarrow> False | Inr data \<Rightarrow> valid_record data)"




subsection \<open>Example inputs\<close>

text \<open>The record of the specification's example, and a record with an unmapped label.\<close>

definition doc_cat :: document where
  "doc_cat =
     \<lparr>imageWidth = Some 4, imageHeight = Some 4, imagePath = Some ''a.png'',
      shapes = Some [\<lparr>label = Some ''cat'', points = Some [(0, 0), (4, 0), (4, 4), (0, 4)]\<rparr>]\<rparr>"

definition doc_unknown :: document where
  "doc_unknown =
     \<lparr>imageWidth = Some 3, imageHeight = Some 2, imagePath = Some ''u.png'',
      shapes = Some [\<lparr>label = Some ''unknown_xyz'', points = Some [(0, 0), (2, 0), (2, 1), (0, 1)]\<rparr>]\<rparr>"



text \<open>Records in which a shape is labelled \<^verbatim>\<open>background\<close>.\<close>

definition doc_background :: document where
  "doc_background =
     \<lparr>imageWidth = Some 4, imageHeight = Some 4, imagePath = Some ''b.png'',
      shapes = Some [\<lparr>label = Some ''background'', points = Some [(0, 0), (4, 0), (4, 4), (0, 4)]\<rparr>]\<rparr>"

definition doc_apple :: document where
  "doc_apple =
     \<lparr>imageWidth = Some 4, imageHeight = Some 4, imagePath = Some ''c.png'',
      shapes = Some [\<lparr>label = Some ''background'', points = Some [(0, 0), (4, 0), (4, 4), (0, 4)]\<rparr>,
                     \<lparr>label = Some ''apple'', points = Some [(1, 1), (3, 1), (3, 3), (1, 3)]\<rparr>]\<rparr>"

text \<open>
  An input directory \<^verbatim>\<open>in\<close>: two records, the image of the first only, a file that is
  not JSON, and a file with another extension.
\<close>

definition example_files :: fs where
  "example_files =
     [''in/a.json'' \<mapsto> File (JsonDoc doc_cat),
      ''in/a.png'' \<mapsto> File (Opaque ''png''),
      ''in/u.json'' \<mapsto> File (JsonDoc doc_unknown),
      ''in/bad.json'' \<mapsto> File (Opaque ''{''),
      ''in/notes.txt'' \<mapsto> File (Opaque ''notes'')]"

definition example_listing :: "string list" where
  "example_listing = [''notes.txt'', ''bad.json'', ''a.json'', ''a.png'', ''u.json'']"

definition example_mapping :: class_mapping where
  "example_mapping = [(''background'', 0), (''cat'', 1)]"

definition example_colors :: "color list" where
  "example_colors = [(0, 0, 0), (57, 64, 149)]"

definition example_batch :: batch where
  "example_batch = \<lparr>files = example_files, out = [], processed_count = 0, error_count = 0\<rparr>"

section \<open>Properties\<close>

subsection \<open>The palette\<close>

lemma colors_loop_append:
  "\<exists>ds. fst (colors_loop randint k cs g) = cs @ ds \<and> length ds = k \<and>
        (randint_ok randint \<longrightarrow> (\<forall>d \<in> set ds. channel_ok d))"
proof (induction k arbitrary: cs g)
  case 0
  show ?case by simp
next
  case (Suc k)
  obtain r g1 where r: "randint 50 255 g = (r, g1)" by (cases "randint 50 255 g")
  obtain gr g2 where gr: "randint 50 255 g1 = (gr, g2)" by (cases "randint 50 255 g1")
  obtain b g3 where b: "randint 50 255 g2 = (b, g3)" by (cases "randint 50 255 g2")
  from Suc.IH [of "cs @ [(r, gr, b)]" g3]
  obtain ds where ds: "fst (colors_loop randint k (cs @ [(r, gr, b)]) g3) = (cs @ [(r, gr, b)]) @ ds"
    "length ds = k" "randint_ok randint \<longrightarrow> (\<forall>d \<in> set ds. channel_ok d)"
    by blast
  have new: "randint_ok randint \<longrightarrow> channel_ok (r, gr, b)"
  proof
    assume ok: "randint_ok randint"
    have "50 \<le> fst (randint 50 255 g) \<and> fst (randint 50 255 g) \<le> 255"
      "50 \<le> fst (randint 50 255 g1) \<and> fst (randint 50 255 g1) \<le> 255"
      "50 \<le> fst (randint 50 255 g2) \<and> fst (randint 50 255 g2) \<le> 255"
      using ok unfolding randint_ok_def by simp_all
    then show "channel_ok (r, gr, b)"
      by (simp add: channel_ok_def r gr b)
  qed
  have "fst (colors_loop randint (Suc k) cs g) = cs @ ((r, gr, b) # ds)"
    using ds(1) by (simp add: r gr b)
  moreover have "length ((r, gr, b) # ds) = Suc k" using ds(2) by simp
  moreover have "randint_ok randint \<longrightarrow> (\<forall>d \<in> set ((r, gr, b) # ds). channel_ok d)"
    using ds(3) new by simp
  ultimately show ?case by blast
qed

lemma colors_loop_length: "length (fst (colors_loop randint k cs g)) = length cs + k"
  using colors_loop_append [of randint k cs g] by auto

lemma lcg_ok: "randint_ok lcg"
  unfolding randint_ok_def lcg_def
proof (intro allI impI)
  fix a b g :: int
  assume "a \<le> b"
  then have m: "0 < b - a + 1" by simp
  have "0 \<le> g mod (b - a + 1)" "g mod (b - a + 1) < b - a + 1"
    using m by (rule pos_mod_sign, rule pos_mod_bound)
  then show "a \<le> fst (a + g mod (b - a + 1), (g * 1103515245 + 12345) mod 2147483648) \<and>
        fst (a + g mod (b - a + 1), (g * 1103515245 + 12345) mod 2147483648) \<le> b"
    by simp
qed

text \<open>
  C5: for every \<open>num_classes = n \<ge> 1\<close>, whatever the generator does within the contract
  of \<^verbatim>\<open>randint\<close>, \<^verbatim>\<open>generate_class_colors\<close> returns exactly \<open>n\<close> colours, the first is
  \<open>(0, 0, 0)\<close>, and every other one has its three channels in \<open>50..255\<close>.
\<close>

theorem palette_entries:
  assumes "randint_ok randint" and "1 \<le> n"
  shows "length (fst (generate_class_colors randint n g)) = nat n \<and>
         fst (generate_class_colors randint n g) ! 0 = (0, 0, 0) \<and>
         (\<forall>i. 1 \<le> i \<and> i < nat n \<longrightarrow> channel_ok (fst (generate_class_colors randint n g) ! i))"
proof -
  obtain ds where ds: "fst (generate_class_colors randint n g) = [(0, 0, 0)] @ ds"
    "length ds = nat (n - 1)" "\<forall>d \<in> set ds. channel_ok d"
    using colors_loop_append [of randint "nat (n - 1)" "[(0, 0, 0)]" g] assms(1)
    unfolding generate_class_colors_def by blast
  have len: "length (fst (generate_class_colors randint n g)) = nat n"
    using ds(1,2) assms(2) by simp
  have "channel_ok (fst (generate_class_colors randint n g) ! i)" if "1 \<le> i" "i < nat n" for i
  proof -
    from that have "i - 1 < length ds" using ds(2) by simp
    then have "ds ! (i - 1) \<in> set ds" by simp
    moreover have "fst (generate_class_colors randint n g) ! i = ds ! (i - 1)"
      using that(1) ds(1) by (simp add: nth_Cons')
    ultimately show ?thesis using ds(3) by simp
  qed
  then show ?thesis using len ds(1) by simp
qed

theorem palette_entries_witness:
  "randint_ok lcg \<and> (1::int) \<le> 4 \<and>
   length (fst (generate_class_colors lcg 4 7)) = 4 \<and>
   fst (generate_class_colors lcg 4 7) ! 0 = (0, 0, 0) \<and>
   channel_ok (fst (generate_class_colors lcg 4 7) ! 1) \<and>
   channel_ok (fst (generate_class_colors lcg 4 7) ! 3)"
proof -
  have h: "(1::int) \<le> 4" by simp
  show ?thesis using palette_entries [OF lcg_ok h, of 7] lcg_ok by simp
qed

text \<open>
  C10: the palette has \<open>max n 1\<close> entries; the statement holds for every integer \<open>n\<close>,
  so for every non-negative one, and for \<open>n = 0\<close> the result is the one-element list
  \<open>[(0, 0, 0)]\<close>.
\<close>

theorem palette_length:
  "length (fst (generate_class_colors randint n g)) = nat (max n 1) \<and>
   fst (generate_class_colors randint 0 g) = [(0, 0, 0)]"
proof -
  have "Suc (nat (n - 1)) = nat (max n 1)" by (simp add: max_def) arith
  then show ?thesis by (simp add: generate_class_colors_def colors_loop_length)
qed

subsection \<open>The source image of a record\<close>

lemma basename_no_sep: "CHR ''/'' \<notin> set (basename p)"
  unfolding basename_def using set_takeWhileD by fastforce

lemma basename_relative: "\<not> isabs (basename p)"
  using basename_no_sep [of p] by (cases "basename p") (auto simp: isabs_def)

lemma basename_id: "CHR ''/'' \<notin> set p \<Longrightarrow> basename p = p"
proof -
  assume "CHR ''/'' \<notin> set p"
  then have "\<forall>c \<in> set (rev p). c \<noteq> CHR ''/''" by auto
  then have "takeWhile (\<lambda>c. c \<noteq> CHR ''/'') (rev p) = rev p"
    by (simp only: takeWhile_eq_all_conv)
  then show ?thesis by (simp only: basename_def rev_rev_ident)
qed

text \<open>
  C3, as stated, fails: the relative path \<^verbatim>\<open>sub/a.png\<close> resolved against the input
  directory \<^verbatim>\<open>in\<close> is \<^verbatim>\<open>in/sub/a.png\<close>, and the program looks for \<^verbatim>\<open>in/a.png\<close>.
\<close>

theorem image_path_counterexample:
  "image_path_of ''in'' ''sub/a.png'' \<noteq> spec_resolve ''in'' ''sub/a.png''"
  by (simp add: image_path_of_def spec_resolve_def isabs_def join_def basename_def endswith_def)

text \<open>
  C3, amended: an absolute \<^verbatim>\<open>imagePath\<close> is used as it is; of a relative one only the
  last component is kept, and that is resolved against the input directory.  The two
  readings agree on every \<^verbatim>\<open>imagePath\<close> without a directory part.
\<close>

theorem image_path_basename:
  "image_path_of input_dir p = spec_resolve input_dir (if isabs p then p else basename p) \<and>
   (CHR ''/'' \<notin> set p \<longrightarrow> image_path_of input_dir p = spec_resolve input_dir p)"
proof -
  have a: "image_path_of input_dir p = spec_resolve input_dir (if isabs p then p else basename p)"
    by (simp add: image_path_of_def spec_resolve_def basename_relative)
  have "image_path_of input_dir p = spec_resolve input_dir p" if "CHR ''/'' \<notin> set p"
    using that by (simp add: image_path_of_def spec_resolve_def basename_id)
  with a show ?thesis by simp
qed

theorem image_path_basename_witness:
  "CHR ''/'' \<notin> set ''a.png'' \<and> image_path_of ''in'' ''a.png'' = spec_resolve ''in'' ''a.png'' \<and>
   image_path_of ''in'' ''sub/a.png'' = ''in/a.png'' \<and> image_path_of ''in'' ''/data/a.png'' = ''/data/a.png''"
  using image_path_basename [of "''in''" "''a.png''"] image_path_basename [of "''in''" "''sub/a.png''"]
    image_path_basename [of "''in''" "''/data/a.png''"]
  by (simp add: spec_resolve_def isabs_def join_def basename_def endswith_def)

text \<open>
  The other half: a relative \<^verbatim>\<open>imagePath\<close> with a directory part is not resolved
  against the input directory.
\<close>

lemma join_inject: "\<not> isabs x \<Longrightarrow> \<not> isabs y \<Longrightarrow> join d x = join d y \<Longrightarrow> x = y"
  by (auto simp: join_def split: if_splits)

lemma image_path_differs:
  assumes "\<not> isabs p" and "CHR ''/'' \<in> set p"
  shows "image_path_of input_dir p \<noteq> spec_resolve input_dir p"
proof
  assume "image_path_of input_dir p = spec_resolve input_dir p"
  then have "join input_dir (basename p) = join input_dir p"
    using assms(1) by (simp add: image_path_of_def spec_resolve_def)
  then have "basename p = p"
    using basename_relative [of p] assms(1) by (rule join_inject [rotated 2])
  then show False using basename_no_sep [of p] assms(2) by simp
qed

subsection \<open>The loop over the shapes\<close>

lemma draw_shapes_printed:
  "draw_shapes polygon cm cc ss m c printed = ((m', c', printed'), err) \<Longrightarrow>
   \<exists>evs. printed' = printed @ evs"
proof (induction ss arbitrary: m c printed)
  case Nil
  then show ?case by simp
next
  case (Cons s ss)
  then show ?case
    by (fastforce split: option.splits sum.splits prod.splits)
qed


lemma draw_shapes_invalid:
  "\<not> list_all (\<lambda>s. label s \<noteq> None \<and> points s \<noteq> None) ss \<Longrightarrow>
   snd (draw_shapes polygon cm cc ss m c printed) \<noteq> None"
  by (induction ss arbitrary: m c printed) (auto split: option.splits sum.splits prod.splits)


subsection \<open>Paths of the outputs\<close>

lemma endswith_iff: "endswith s t \<longleftrightarrow> (\<exists>u. s = u @ t)"
proof
  assume "endswith s t"
  then have "s = take (length s - length t) s @ t"
    by (metis append_take_drop_id endswith_def)
  then show "\<exists>u. s = u @ t" ..
next
  assume "\<exists>u. s = u @ t"
  then show "endswith s t" by (auto simp: endswith_def)
qed







lemma basename_append_sep:
  assumes "CHR ''/'' \<notin> set x"
  shows "basename (d @ CHR ''/'' # x) = x"
proof -
  have "takeWhile (\<lambda>c. c \<noteq> CHR ''/'') (rev x @ CHR ''/'' # rev d) = rev x"
    using assms by (auto simp: takeWhile_tail)
  then show ?thesis by (simp add: basename_def)
qed

lemma basename_join:
  assumes "CHR ''/'' \<notin> set x"
  shows "basename (join d x) = x"
proof -
  have rel: "\<not> isabs x" using assms by (cases x) (auto simp: isabs_def)
  show ?thesis
  proof (cases "d = []")
    case True
    then show ?thesis using rel assms by (simp add: join_def basename_id)
  next
    case False
    show ?thesis
    proof (cases "endswith d ''/''")
      case True
      then obtain u where "d = u @ ''/''" by (auto simp: endswith_iff)
      then have "join d x = u @ CHR ''/'' # x" using rel True by (simp add: join_def)
      then show ?thesis using basename_append_sep [OF assms] by simp
    next
      case no: False
      then have "join d x = d @ CHR ''/'' # x" using rel False by (simp add: join_def)
      then show ?thesis using basename_append_sep [OF assms] by simp
    qed
  qed
qed

lemma stem_no_sep: "CHR ''/'' \<notin> set (image_name_of ip)"
proof -
  have "set (image_name_of ip) \<subseteq> set (basename ip)"
    by (auto simp: image_name_of_def splitext_def Let_def dest: in_set_takeD)
  then show ?thesis using basename_no_sep [of ip] by blast
qed




lemma mask_paths_distinct: "mask_path_of d ip \<noteq> color_mask_path_of d' ip"
proof
  assume eq: "mask_path_of d ip = color_mask_path_of d' ip"
  let ?stem = "image_name_of ip"
  have "basename (mask_path_of d ip) = ?stem @ ''.png''"
    unfolding mask_path_of_def using stem_no_sep [of ip] by (intro basename_join) simp
  moreover have "basename (color_mask_path_of d' ip) = ?stem @ ''_color.png''"
    unfolding color_mask_path_of_def using stem_no_sep [of ip] by (intro basename_join) simp
  ultimately have "?stem @ ''.png'' = ?stem @ ''_color.png''" using eq by simp
  then show False by simp
qed

subsection \<open>The rasteriser on one file\<close>


lemma json_to_mask_invalid:
  assumes "\<not> parses (files w) json_path"
  shows "\<exists>e evs. json_to_mask polygon json_path md cd cm cc w = (w\<lparr>out := out w @ evs\<rparr>, Some e)"
proof (cases "read_json (files w) json_path")
  case (Inl e)
  then have "json_to_mask polygon json_path md cd cm cc w = (w\<lparr>out := out w @ []\<rparr>, Some e)"
    by (simp add: json_to_mask_def)
  then show ?thesis by blast
next
  case (Inr data)
  with assms have inv: "\<not> valid_record data" by (simp add: parses_def)
  have early: "\<exists>e evs. json_to_mask polygon json_path md cd cm cc w = (w\<lparr>out := out w @ evs\<rparr>, Some e)"
    if "json_to_mask polygon json_path md cd cm cc w = (w, Some e)" for e
  proof -
    from that have "json_to_mask polygon json_path md cd cm cc w = (w\<lparr>out := out w @ []\<rparr>, Some e)"
      by simp
    then show ?thesis by blast
  qed
  show ?thesis
  proof (cases "imageWidth data")
    case None
    then show ?thesis using Inr by (intro early [of KeyError]) (simp add: json_to_mask_def)
  next
    case iw: (Some iw)
    show ?thesis
    proof (cases "imageHeight data")
      case None
      then show ?thesis using Inr iw by (intro early [of KeyError]) (simp add: json_to_mask_def)
    next
      case ih: (Some ih)
      show ?thesis
      proof (cases "iw < 0 \<or> ih < 0")
        case True
        then show ?thesis using Inr iw ih
          by (intro early [of ValueError]) (auto simp: json_to_mask_def image_new_def)
      next
        case nonneg: False
        show ?thesis
        proof (cases "shapes data")
          case None
          then show ?thesis using Inr iw ih nonneg
            by (intro early [of KeyError]) (auto simp: json_to_mask_def image_new_def)
        next
          case shs: (Some shs)
          obtain m c printed err where d: "draw_shapes polygon cm cc shs (filled (nat iw) (nat ih) 0)
             (filled (nat iw) (nat ih) (0, 0, 0)) (out w) = ((m, c, printed), err)"
            by (metis prod_cases3 surj_pair)
          from draw_shapes_printed [OF d] obtain evs where evs: "printed = out w @ evs" ..
          show ?thesis
          proof (cases err)
            case (Some e)
            then have "json_to_mask polygon json_path md cd cm cc w = (w\<lparr>out := out w @ evs\<rparr>, Some e)"
              using Inr iw ih nonneg shs d evs by (auto simp: json_to_mask_def image_new_def)
            then show ?thesis by blast
          next
            case None
            have "list_all (\<lambda>s. label s \<noteq> None \<and> points s \<noteq> None) shs"
              using draw_shapes_invalid [of shs polygon cm cc "filled (nat iw) (nat ih) 0"
                  "filled (nat iw) (nat ih) (0, 0, 0)" "out w"] d None
              by auto
            with inv iw ih shs have "imagePath data = None"
              by (auto simp: valid_record_def)
            then have "json_to_mask polygon json_path md cd cm cc w =
                (w\<lparr>out := out w @ evs\<rparr>, Some KeyError)"
              using Inr iw ih nonneg shs d evs None by (auto simp: json_to_mask_def image_new_def)
            then show ?thesis by blast
          qed
        qed
      qed
    qed
  qed
qed



lemma json_to_mask_counts:
  fixes b :: batch
  shows "processed_count (fst (json_to_mask polygon json_path md cd cm cc b)) = processed_count b"
    and "error_count (fst (json_to_mask polygon json_path md cd cm cc b)) = error_count b"
  unfolding json_to_mask_def Let_def
  by (auto split: sum.splits option.splits prod.splits)


lemma copy_image_counts:
  fixes b :: batch
  shows "processed_count (fst (copy_image input_dir images_dir json_path b)) = processed_count b"
    and "error_count (fst (copy_image input_dir images_dir json_path b)) = error_count b"
  unfolding copy_image_def Let_def copy2_def write_file_def
  by (auto split: sum.splits option.splits prod.splits if_splits node.splits)

subsection \<open>The loop over the directory\<close>


lemma process_file_skip:
  "\<not> endswith filename ''.json'' \<Longrightarrow>
   process_file polygon input_dir images_dir masks_dir color_masks_dir cm cc filename b = b"
  by (simp add: process_file_def)

lemma process_file_counts:
  "processed_count (process_file polygon input_dir images_dir masks_dir color_masks_dir cm cc filename b)
   + error_count (process_file polygon input_dir images_dir masks_dir color_masks_dir cm cc filename b)
   = processed_count b + error_count b + (if endswith filename ''.json'' then 1 else 0)"
proof (cases "endswith filename ''.json''")
  case False
  then show ?thesis by (simp add: process_file_def)
next
  case True
  let ?jp = "join input_dir filename"
  obtain b1 e1 where j: "json_to_mask polygon ?jp masks_dir color_masks_dir cm cc b = (b1, e1)"
    by (cases "json_to_mask polygon ?jp masks_dir color_masks_dir cm cc b")
  have c1: "processed_count b1 = processed_count b" "error_count b1 = error_count b"
    using json_to_mask_counts [of polygon ?jp masks_dir color_masks_dir cm cc b] j by simp_all
  obtain b2 e2 where c: "copy_image input_dir images_dir ?jp b1 = (b2, e2)"
    by (cases "copy_image input_dir images_dir ?jp b1")
  have c2: "processed_count b2 = processed_count b1" "error_count b2 = error_count b1"
    using copy_image_counts [of input_dir images_dir ?jp b1] c by simp_all
  show ?thesis using True j c c1 c2
    by (cases e1; cases e2) (simp_all add: process_file_def)
qed

lemma process_files_counts:
  "processed_count (process_files polygon input_dir images_dir masks_dir color_masks_dir cm cc listing b)
   + error_count (process_files polygon input_dir images_dir masks_dir color_masks_dir cm cc listing b)
   = processed_count b + error_count b + length (filter (\<lambda>n. endswith n ''.json'') listing)"
proof (induction listing arbitrary: b)
  case Nil
  show ?case by (simp add: process_files_def)
next
  case (Cons n ns)
  show ?case
    using Cons.IH [of "process_file polygon input_dir images_dir masks_dir color_masks_dir cm cc n b"]
      process_file_counts [of polygon input_dir images_dir masks_dir color_masks_dir cm cc n b]
    by (simp add: process_files_def)
qed



lemma process_files_append:
  "process_files polygon input_dir images_dir masks_dir color_masks_dir cm cc (pre @ name # post) b =
   process_files polygon input_dir images_dir masks_dir color_masks_dir cm cc post
     (process_file polygon input_dir images_dir masks_dir color_masks_dir cm cc name
        (process_files polygon input_dir images_dir masks_dir color_masks_dir cm cc pre b))"
  by (simp add: process_files_def)

lemma process_file_invalid:
  fixes b :: batch
  assumes "endswith name ''.json''" and "\<not> parses (files b) (join input_dir name)"
  shows "\<exists>e evs. process_file polygon input_dir images_dir masks_dir color_masks_dir cm cc name b =
     b\<lparr>out := out b @ evs @ [ProcessingError (join input_dir name) e],
       error_count := error_count b + 1\<rparr>"
proof -
  from json_to_mask_invalid [OF assms(2), of polygon masks_dir color_masks_dir cm cc]
  obtain e evs where "json_to_mask polygon (join input_dir name) masks_dir color_masks_dir cm cc b =
     (b\<lparr>out := out b @ evs\<rparr>, Some e)" by blast
  then have "process_file polygon input_dir images_dir masks_dir color_masks_dir cm cc name b =
     b\<lparr>out := out b @ evs @ [ProcessingError (join input_dir name) e],
       error_count := error_count b + 1\<rparr>"
    using assms(1) by (simp add: process_file_def)
  then show ?thesis by blast
qed

subsection \<open>Bad files, missing images, unmapped labels\<close>



text \<open>
  C8: a name of the listing without the extension \<^verbatim>\<open>.json\<close> leaves the state as it is.
  A \<^verbatim>\<open>.json\<close> file that does not parse into a structurally valid record changes only the
  console and the error counter: the exception is printed for that file and counted
  once.  The loop then goes on with the rest of the listing, whatever the file was, and
  at its end every \<^verbatim>\<open>.json\<close> name has been counted once, as processed or as an error.
\<close>

theorem bad_file_isolated:
  fixes b :: batch
  shows "(\<not> endswith name ''.json'' \<longrightarrow>
            process_file polygon input_dir images_dir masks_dir color_masks_dir cm cc name b = b) \<and>
         (endswith name ''.json'' \<and> \<not> parses (files b) (join input_dir name) \<longrightarrow>
            (\<exists>e evs. process_file polygon input_dir images_dir masks_dir color_masks_dir cm cc name b =
               b\<lparr>out := out b @ evs @ [ProcessingError (join input_dir name) e],
                 error_count := error_count b + 1\<rparr>)) \<and>
         process_files polygon input_dir images_dir masks_dir color_masks_dir cm cc
             (pre @ name # post) b =
           process_files polygon input_dir images_dir masks_dir color_masks_dir cm cc post
             (process_file polygon input_dir images_dir masks_dir color_masks_dir cm cc name
                (process_files polygon input_dir images_dir masks_dir color_masks_dir cm cc pre b)) \<and>
         processed_count (process_files polygon input_dir images_dir masks_dir color_masks_dir
             cm cc listing b)
           + error_count (process_files polygon input_dir images_dir masks_dir color_masks_dir
             cm cc listing b)
           = processed_count b + error_count b
             + length (filter (\<lambda>n. endswith n ''.json'') listing)"
  using process_file_skip [of name polygon input_dir images_dir masks_dir color_masks_dir cm cc b]
    process_file_invalid [of name b input_dir polygon images_dir masks_dir color_masks_dir cm cc]
    process_files_append [of polygon input_dir images_dir masks_dir color_masks_dir cm cc pre name post b]
    process_files_counts [of polygon input_dir images_dir masks_dir color_masks_dir cm cc listing b]
  by blast





subsection \<open>A shape over the whole canvas\<close>


lemma example_paths:
  "join ''in'' ''a.json'' = ''in/a.json''" "join ''in'' ''u.json'' = ''in/u.json''"
  "join ''in'' ''bad.json'' = ''in/bad.json''"
  "mask_path_of ''out/masks'' ''a.png'' = ''out/masks/a.png''"
  "color_mask_path_of ''out/color_masks'' ''a.png'' = ''out/color_masks/a_color.png''"
  "mask_path_of ''out/masks'' ''u.png'' = ''out/masks/u.png''"
  "color_mask_path_of ''out/color_masks'' ''u.png'' = ''out/color_masks/u_color.png''"
  "image_path_of ''in'' ''a.png'' = ''in/a.png''" "image_path_of ''in'' ''u.png'' = ''in/u.png''"
  "image_name_of ''a.png'' = ''a''" "image_name_of ''u.png'' = ''u''"
  by (simp_all add: join_def isabs_def endswith_def mask_path_of_def color_mask_path_of_def
      image_name_of_def splitext_def basename_def image_path_of_def Let_def)




subsection \<open>The properties on the example directory\<close>

lemma example_suffixes:
  "\<not> endswith ''notes.txt'' ''.json''" "endswith ''bad.json'' ''.json''"
  "endswith ''a.json'' ''.json''" "endswith ''u.json'' ''.json''"
  by (simp_all add: endswith_def)

theorem bad_file_isolated_witness:
  "\<not> endswith ''notes.txt'' ''.json'' \<and>
   process_file bbox_polygon ''in'' ''out/images'' ''out/masks'' ''out/color_masks''
     example_mapping example_colors ''notes.txt'' example_batch = example_batch \<and>
   endswith ''bad.json'' ''.json'' \<and> \<not> parses (files example_batch) (join ''in'' ''bad.json'') \<and>
   (\<exists>e evs. process_file bbox_polygon ''in'' ''out/images'' ''out/masks'' ''out/color_masks''
       example_mapping example_colors ''bad.json'' example_batch =
     example_batch\<lparr>out := out example_batch @ evs @ [ProcessingError (join ''in'' ''bad.json'') e],
                    error_count := error_count example_batch + 1\<rparr>) \<and>
   processed_count (process_files bbox_polygon ''in'' ''out/images'' ''out/masks'' ''out/color_masks''
       example_mapping example_colors example_listing example_batch)
     + error_count (process_files bbox_polygon ''in'' ''out/images'' ''out/masks'' ''out/color_masks''
       example_mapping example_colors example_listing example_batch) = 3"
proof -
  have bad: "\<not> parses (files example_batch) (join ''in'' ''bad.json'')"
    by (simp add: parses_def read_json_def example_batch_def example_files_def example_paths)
  have n: "length (filter (\<lambda>n. endswith n ''.json'') example_listing) = 3"
    by (simp add: example_listing_def endswith_def)
  show ?thesis
    using bad_file_isolated [of "''notes.txt''" bbox_polygon "''in''" "''out/images''" "''out/masks''"
        "''out/color_masks''" example_mapping example_colors example_batch "[]" "[]" example_listing]
      bad_file_isolated [of "''bad.json''" bbox_polygon "''in''" "''out/images''" "''out/masks''"
        "''out/color_masks''" example_mapping example_colors example_batch "[]" "[]" example_listing]
      bad n example_suffixes
    by (simp add: example_batch_def)
qed



subsection \<open>The vocabulary\<close>






lemma py_enumerate_length: "length (py_enumerate n ks) = length ks"
  by (induction ks arbitrary: n) simp_all

lemma py_enumerate_bounds:
  "(i, k) \<in> set (py_enumerate n ks) \<Longrightarrow> n \<le> i \<and> i < n + int (length ks)"
  by (induction ks arbitrary: n) fastforce+

lemma add_labels_union: "fst (add_labels ss L) = L \<union> fst (add_labels ss {})"
proof (induction ss arbitrary: L)
  case Nil
  show ?case by simp
next
  case (Cons s ss)
  show ?case
  proof (cases "label s")
    case None
    then show ?thesis by simp
  next
    case (Some l)
    from Cons.IH [of "insert l L"] Cons.IH [of "{l}"] Some show ?thesis by auto
  qed
qed

lemma add_labels_finite: "finite L \<Longrightarrow> finite (fst (add_labels ss L))"
  by (induction ss arbitrary: L) (auto split: option.splits)

lemma detect_file_fst:
  "fst (detect_file fs d f (L, pr)) =
     (if endswith f ''.json'' then
        (case read_json fs (join d f) of
           Inl e \<Rightarrow> L
         | Inr data \<Rightarrow> (case shapes data of None \<Rightarrow> L | Some shs \<Rightarrow> fst (add_labels shs L)))
      else L)"
  by (simp add: detect_file_def Let_def split: sum.splits option.splits prod.splits)

lemma detect_file_union:
  "fst (detect_file fs d f (L, pr)) = L \<union> fst (detect_file fs d f ({}, []))"
  unfolding detect_file_fst
  by (simp add: add_labels_union [of _ L] split: sum.splits option.splits)

lemma detect_file_finite: "finite (fst st) \<Longrightarrow> finite (fst (detect_file fs d f st))"
  by (cases st) (simp add: detect_file_fst add_labels_finite split: sum.splits option.splits)

lemma detect_fold_union:
  "fst (fold (detect_file fs d) listing (L, pr)) =
   L \<union> (\<Union>f \<in> set listing. fst (detect_file fs d f ({}, [])))"
proof (induction listing arbitrary: L pr)
  case Nil
  show ?case by simp
next
  case (Cons f fs')
  obtain L1 pr1 where s: "detect_file fs d f (L, pr) = (L1, pr1)"
    by (cases "detect_file fs d f (L, pr)")
  have "L1 = L \<union> fst (detect_file fs d f ({}, []))"
    using detect_file_union [of fs d f L pr] s by simp
  then show ?case using Cons.IH [of L1 pr1] s by auto
qed

lemma detect_fold_finite:
  "finite (fst st) \<Longrightarrow> finite (fst (fold (detect_file fs d) listing st))"
  by (induction listing arbitrary: st) (simp_all add: detect_file_finite)

lemma vocabulary_order_independent:
  assumes "set listing = set listing'"
  shows "fst (auto_detect_classes fs listing d) = fst (auto_detect_classes fs listing' d)"
proof -
  have "fst (fold (detect_file fs d) listing ({}, [])) = fst (fold (detect_file fs d) listing' ({}, []))"
    using assms by (simp add: detect_fold_union)
  then show ?thesis
    by (auto simp: auto_detect_classes_def split: prod.splits)
qed


text \<open>
  C1 asks that \<^verbatim>\<open>background\<close> always gets id 0 and that the ids are a dense range from 0,
  as line 150 of the program says.  On a record with the labels \<^verbatim>\<open>background\<close> and
  \<^verbatim>\<open>apple\<close> the program returns \<^verbatim>\<open>background\<close> with id 2 and no label with id 0: the
  assignment in the loop of line 152 overwrites the reserved entry.
\<close>

theorem vocabulary_background_overwritten:
  "fst (auto_detect_classes [''in/c.json'' \<mapsto> File (JsonDoc doc_apple)] [''c.json''] ''in'') =
     [(''background'', 2), (''apple'', 1)]"
  by code_simp

text \<open>
  C2 asks that a shape labelled \<^verbatim>\<open>background\<close> leaves that label at class id 0.  On a
  record whose only label is \<^verbatim>\<open>background\<close> the mapping returned holds one entry, and its
  id is 1.
\<close>

theorem background_label_not_zero:
  "map_of (fst (auto_detect_classes [''in/b.json'' \<mapsto> File (JsonDoc doc_background)]
     [''b.json''] ''in'')) ''background'' = Some 1"
  by code_simp

subsection \<open>The colour report\<close>







end
